theory Spec2Isabelle
  imports Complex_Main
begin

section \<open>Classifier wrapper: risk category (ml\_model.py)\<close>

text \<open>
  \<^verbatim>\<open>_map_risk_category\<close> of \<^verbatim>\<open>ml_model.py\<close>. Python floats are modelled as reals
  throughout; the returned strings are the values of the \<^verbatim>\<open>RiskCategory\<close> enum of
  \<^verbatim>\<open>schemas.py\<close>.
\<close>

definition map_risk_category :: "real \<Rightarrow> string" where
  "map_risk_category approval_probability =
     (if approval_probability > 0.7 then ''Low''
      else if approval_probability \<ge> 0.3 then ''Medium''
      else ''High'')"

section \<open>Trust engine (governance/trust\_engine.py)\<close>

subsection \<open>Thresholds\<close>

record thresholds =
  drift_low :: real
  drift_moderate :: real
  drift_high :: real
  acc_acceptable :: real
  acc_concerning :: real
  acc_critical :: real
  lvl_autonomous :: real
  lvl_human_on_loop :: real
  lvl_approval_required :: real
  lvl_kill_switch :: real
  w_drift_penalty :: real
  w_accuracy_penalty :: real
  w_bias_penalty :: real
  w_override_penalty :: real

definition load_thresholds :: thresholds where
  "load_thresholds =
     \<lparr> drift_low = 0.1, drift_moderate = 0.2, drift_high = 0.3,
       acc_acceptable = 0.02, acc_concerning = 0.05, acc_critical = 0.10,
       lvl_autonomous = 80, lvl_human_on_loop = 60, lvl_approval_required = 40,
       lvl_kill_switch = 0,
       w_drift_penalty = 30, w_accuracy_penalty = 25, w_bias_penalty = 20,
       w_override_penalty = 10 \<rparr>"

subsection \<open>Penalties, autonomy level, alerts, governance action\<close>

definition calculate_drift_penalty :: "string \<Rightarrow> real" where
  "calculate_drift_penalty severity =
     (case map_of [(''low'', 5), (''moderate'', 15), (''high'', 30)] severity of
        Some p \<Rightarrow> p
      | None \<Rightarrow> 0)"

definition calculate_accuracy_penalty :: "real \<Rightarrow> real" where
  "calculate_accuracy_penalty drop' =
     (if drop' < acc_acceptable load_thresholds then 0
      else if drop' < acc_concerning load_thresholds then 10
      else if drop' < acc_critical load_thresholds then 20
      else 25)"

definition determine_autonomy_level :: "real \<Rightarrow> string" where
  "determine_autonomy_level trust_score =
     (if trust_score \<ge> lvl_autonomous load_thresholds then ''fully_autonomous''
      else if trust_score \<ge> lvl_human_on_loop load_thresholds then ''human-on-loop''
      else if trust_score \<ge> lvl_approval_required load_thresholds then ''approval_required''
      else ''kill_switch'')"

definition check_alerts :: "string \<Rightarrow> real \<Rightarrow> real \<Rightarrow> string list" where
  "check_alerts drift_severity accuracy_drop trust_score =
     (let alerts = [];
          alerts = (if drift_severity = ''high'' then alerts @ [''critical_drift'']
                    else if drift_severity = ''moderate'' then alerts @ [''moderate_drift'']
                    else alerts);
          alerts = (if accuracy_drop > acc_critical load_thresholds
                      then alerts @ [''critical_accuracy_drop'']
                    else if accuracy_drop > acc_concerning load_thresholds
                      then alerts @ [''accuracy_degradation'']
                    else alerts);
          alerts = (if trust_score < lvl_approval_required load_thresholds
                      then alerts @ [''low_trust_score'']
                    else if trust_score < lvl_human_on_loop load_thresholds
                      then alerts @ [''very_low_trust_score'']
                    else alerts)
      in alerts)"

definition determine_governance_action :: "real \<Rightarrow> string list \<Rightarrow> string" where
  "determine_governance_action trust_score alerts =
     (if ''critical_drift'' \<in> set alerts \<or> ''critical_accuracy_drop'' \<in> set alerts
        then ''kill_switch''
      else if trust_score < lvl_approval_required load_thresholds then ''require_approval''
      else if trust_score < lvl_human_on_loop load_thresholds then ''human_review''
      else ''none'')"

subsection \<open>What one call of calculate\_trust\_score reads and writes\<close>

text \<open>
  The documents live in MongoDB collections. One call of \<^verbatim>\<open>calculate_trust_score\<close>
  issues a fixed sequence of driver calls; the record \<open>env\<close> holds the outcome of each:
  \<open>Inl e\<close> when the driver raises an exception with message \<open>e\<close>, \<open>Inr v\<close> when it
  returns \<open>v\<close>; for the insert of the result, \<open>Some e\<close> when it raises and
  \<open>None\<close> when it succeeds. The two reads return the latest document of their
  collection, if there is one; the count is the number of manual overrides of the last
  24 hours. A stored value that is read as a number is a \<open>field\<close>: a number, or
  a value of another type, on which the arithmetic and the comparisons of the source
  raise \<^verbatim>\<open>TypeError\<close>.
\<close>

datatype field = Num real | NotNum

record drift_log =
  feature :: string
  drift_detected :: bool
  severity :: string
  ks_statistic :: real
  p_value :: real
  psi_score :: "field option"
  threshold :: real
  test_type :: string

record perf_metrics =
  accuracy :: "field option"

record performance_log =
  metrics :: "perf_metrics option"

record env =
  drift_logs_find_one :: "string + drift_log option"
  performance_logs_find_one :: "string + performance_log option"
  governance_logs_count_documents :: "string + nat"
  trust_scores_insert_one :: "string option"

subsection \<open>The metric getters\<close>

text \<open>
  Each getter of the source is a \<^verbatim>\<open>try\<close> block with a handler that logs and returns a
  default. The block is the function with suffix \<open>_try\<close> (its value \<open>Inl e\<close> is the
  exception raised in it), the getter itself applies the handler.
\<close>

definition get_drift_severity_try :: "env \<Rightarrow> string + string" where
  "get_drift_severity_try env =
     (case drift_logs_find_one env of
        Inl e \<Rightarrow> Inl e
      | Inr None \<Rightarrow> Inr ''low''
      | Inr (Some recent_drift) \<Rightarrow>
          (case (case psi_score recent_drift of None \<Rightarrow> Num 0 | Some v \<Rightarrow> v) of
             NotNum \<Rightarrow> Inl ''TypeError''
           | Num psi \<Rightarrow>
               if psi > drift_high load_thresholds then Inr ''high''
               else if psi > drift_moderate load_thresholds then Inr ''moderate''
               else Inr ''low''))"

definition get_drift_severity :: "env \<Rightarrow> string" where
  "get_drift_severity env =
     (case get_drift_severity_try env of Inl e \<Rightarrow> ''low'' | Inr s \<Rightarrow> s)"

text \<open>
  The difference \<^verbatim>\<open>baseline_accuracy - current_accuracy\<close> is exact here. The source
  subtracts floats, so for a stored accuracy whose exact drop is a cutoff of
  \<^verbatim>\<open>_calculate_accuracy_penalty\<close> (0.85, 0.90 or 0.93) the source's drop is the
  float just below the cutoff and falls in the lower band. The properties below hold
  for every value of the drop.
\<close>

definition baseline_accuracy :: real where
  "baseline_accuracy = 0.95"

definition get_accuracy_drop_try :: "env \<Rightarrow> string + real" where
  "get_accuracy_drop_try env =
     (case performance_logs_find_one env of
        Inl e \<Rightarrow> Inl e
      | Inr None \<Rightarrow> Inr 0
      | Inr (Some recent_perf) \<Rightarrow>
          (let current_accuracy =
                 (case metrics recent_perf of
                    None \<Rightarrow> Num baseline_accuracy
                  | Some m \<Rightarrow>
                      (case accuracy m of None \<Rightarrow> Num baseline_accuracy | Some v \<Rightarrow> v))
           in case current_accuracy of
                NotNum \<Rightarrow> Inl ''TypeError''
              | Num a \<Rightarrow> Inr (max 0 (baseline_accuracy - a))))"

definition get_accuracy_drop :: "env \<Rightarrow> real" where
  "get_accuracy_drop env =
     (case get_accuracy_drop_try env of Inl e \<Rightarrow> 0 | Inr d \<Rightarrow> d)"

definition get_bias_score_try :: "env \<Rightarrow> string + real" where
  "get_bias_score_try env = Inr 0.15"

definition get_bias_score :: "env \<Rightarrow> real" where
  "get_bias_score env =
     (case get_bias_score_try env of Inl e \<Rightarrow> 0.5 | Inr b \<Rightarrow> b)"

definition get_recent_overrides_try :: "env \<Rightarrow> string + nat" where
  "get_recent_overrides_try env = governance_logs_count_documents env"

definition get_recent_overrides :: "env \<Rightarrow> nat" where
  "get_recent_overrides env =
     (case get_recent_overrides_try env of Inl e \<Rightarrow> 0 | Inr n \<Rightarrow> n)"

subsection \<open>The trust score\<close>

text \<open>
  Python's \<^verbatim>\<open>round(x, ndigits)\<close>: to the nearest multiple of \<open>10 ^ -ndigits\<close>, a tie
  going to the even one.
\<close>

definition round_half_even :: "real \<Rightarrow> int" where
  "round_half_even x =
     (let f = \<lfloor>x\<rfloor>; r = x - of_int f
      in if r < 1 / 2 then f
         else if r > 1 / 2 then f + 1
         else if even f then f else f + 1)"

definition py_round :: "real \<Rightarrow> nat \<Rightarrow> real" where
  "py_round x ndigits = of_int (round_half_even (x * 10 ^ ndigits)) / 10 ^ ndigits"

text \<open>
  Lines 90 to 97 of \<^verbatim>\<open>calculate_trust_score\<close>: the four penalties, the difference and
  the clamp.
\<close>

definition penalised_trust_score :: "string \<Rightarrow> real \<Rightarrow> real \<Rightarrow> nat \<Rightarrow> real" where
  "penalised_trust_score drift_severity accuracy_drop bias_score manual_overrides =
     (let drift_penalty = calculate_drift_penalty drift_severity;
          accuracy_penalty = calculate_accuracy_penalty accuracy_drop;
          bias_penalty = bias_score * w_bias_penalty load_thresholds;
          override_penalty = real manual_overrides * w_override_penalty load_thresholds;
          trust_score = 100 - drift_penalty - accuracy_penalty - bias_penalty - override_penalty
      in max 0 (min 100 trust_score))"

text \<open>
  The result dictionary. The keys that only the scored result has are optional; the
  \<^verbatim>\<open>error\<close> key is present only in the degraded result. The timestamp, the
  explanation text and the two informational counters of
  \<^verbatim>\<open>_get_contributing_metrics\<close> are left out: the helpers that compute them catch
  their own exceptions or cannot raise, and nothing below reads them. The same holds
  for \<^verbatim>\<open>_log_governance_event\<close>, which runs after the result is built.
\<close>

record risk_factors =
  rf_drift_score :: real
  rf_accuracy_drop :: real
  rf_bias_score :: real
  rf_manual_overrides :: real

record contributing_metrics =
  cm_drift_severity :: string
  cm_accuracy_drop_percent :: real
  cm_bias_score :: real
  cm_manual_overrides_count :: nat

record trust_result =
  trust_score :: real
  autonomy_level :: string
  risk_factors :: "risk_factors option"
  contributing_metrics :: "contributing_metrics option"
  alerts_triggered :: "string list option"
  governance_action :: string
  error :: "string option"

definition calculate_trust_score_try :: "env \<Rightarrow> string + trust_result" where
  "calculate_trust_score_try env =
     (let drift_severity = get_drift_severity env;
          accuracy_drop = get_accuracy_drop env;
          bias_score = get_bias_score env;
          manual_overrides = get_recent_overrides env;
          drift_penalty = calculate_drift_penalty drift_severity;
          accuracy_penalty = calculate_accuracy_penalty accuracy_drop;
          bias_penalty = bias_score * w_bias_penalty load_thresholds;
          override_penalty = real manual_overrides * w_override_penalty load_thresholds;
          trust_score =
            penalised_trust_score drift_severity accuracy_drop bias_score manual_overrides;
          autonomy_level = determine_autonomy_level trust_score;
          alerts = check_alerts drift_severity accuracy_drop trust_score;
          governance_action = determine_governance_action trust_score alerts;
          result =
            \<lparr> trust_score = py_round trust_score 2,
              autonomy_level = autonomy_level,
              risk_factors = Some
                \<lparr> rf_drift_score = py_round drift_penalty 2,
                  rf_accuracy_drop = py_round accuracy_penalty 2,
                  rf_bias_score = py_round bias_penalty 2,
                  rf_manual_overrides = py_round override_penalty 2 \<rparr>,
              contributing_metrics = Some
                \<lparr> cm_drift_severity = drift_severity,
                  cm_accuracy_drop_percent = py_round (accuracy_drop * 100) 2,
                  cm_bias_score = py_round bias_score 3,
                  cm_manual_overrides_count = manual_overrides \<rparr>,
              alerts_triggered = Some alerts,
              governance_action = governance_action,
              error = None \<rparr>
      in case trust_scores_insert_one env of
           Some e \<Rightarrow> Inl e
         | None \<Rightarrow> Inr result)"

definition calculate_trust_score :: "env \<Rightarrow> trust_result" where
  "calculate_trust_score env =
     (case calculate_trust_score_try env of
        Inl e \<Rightarrow>
          \<lparr> trust_score = 0,
            autonomy_level = ''kill_switch'',
            risk_factors = None,
            contributing_metrics = None,
            alerts_triggered = None,
            governance_action = ''kill_switch'',
            error = Some e \<rparr>
      | Inr result \<Rightarrow> result)"


subsection \<open>The autonomy levels of the API (main.py)\<close>

text \<open>
  The autonomy levels published by the \<^verbatim>\<open>/governance/autonomy-levels\<close> endpoint of
  \<^verbatim>\<open>main.py\<close> (\<^verbatim>\<open>get_autonomy_levels\<close>): each level with its
  \<^verbatim>\<open>trust_min\<close> and \<^verbatim>\<open>trust_max\<close>.
\<close>

definition get_autonomy_levels :: "(string \<times> real \<times> real) list" where
  "get_autonomy_levels =
     [(''fully_autonomous'', 80, 100),
      (''human_on_loop'', 60, 79),
      (''approval_required'', 40, 59),
      (''kill_switch'', 0, 39)]"

subsection \<open>Incidents\<close>

text \<open>
  \<^verbatim>\<open>resolve_incident\<close>. The incidents collection is the list of its documents in
  the order in which the store scans them; \<^verbatim>\<open>update_one\<close> changes the first document
  that matches the filter and reports whether it changed it, \<^verbatim>\<open>find_one\<close> returns
  the first match. Times are milliseconds, the resolution of a stored date.
\<close>

record incident =
  incident_id :: string
  incident_severity :: string
  incident_type :: string
  detected_at :: nat
  resolved_at :: "nat option"
  status :: string
  description :: string
  affected_features :: "string list"
  actions_taken :: "string list"
  resolution_notes :: "string option"
  trust_score_at_detection :: real
  incident_autonomy_level :: string

fun update_one :: "('d \<Rightarrow> bool) \<Rightarrow> ('d \<Rightarrow> 'd) \<Rightarrow> 'd list \<Rightarrow> 'd list \<times> nat" where
  "update_one flt upd [] = ([], 0)"
| "update_one flt upd (d # ds) =
     (if flt d then (upd d # ds, if upd d = d then 0 else 1)
      else (case update_one flt upd ds of (ds', modified_count) \<Rightarrow> (d # ds', modified_count)))"

definition find_one :: "('d \<Rightarrow> bool) \<Rightarrow> 'd list \<Rightarrow> 'd option" where
  "find_one flt ds = find flt ds"

text \<open>
  The first two arguments are what the driver raises on the \<^verbatim>\<open>update_one\<close> call and
  on the \<^verbatim>\<open>find_one\<close> call, if anything; \<open>now\<close> is the clock. The result is the
  collection after the call and the returned dictionary: \<open>Inl\<close> the value of its
  \<^verbatim>\<open>error\<close> key, \<open>Inr\<close> the incident (the conversion of its dates to text is left
  out).
\<close>

definition resolve_incident ::
  "string option \<Rightarrow> string option \<Rightarrow> incident list \<Rightarrow> string \<Rightarrow> string \<Rightarrow> nat
     \<Rightarrow> incident list \<times> (string + incident)" where
  "resolve_incident update_fault find_fault incidents iid notes now =
     (case update_fault of
        Some e \<Rightarrow> (incidents, Inl e)
      | None \<Rightarrow>
          (case update_one (\<lambda>d. incident_id d = iid)
                  (\<lambda>d. d\<lparr> status := ''resolved'', resolved_at := Some now,
                           resolution_notes := Some notes \<rparr>) incidents of
             (incidents', modified_count) \<Rightarrow>
               if modified_count > 0 then
                 (case find_fault of
                    Some e \<Rightarrow> (incidents', Inl e)
                  | None \<Rightarrow>
                      (case find_one (\<lambda>d. incident_id d = iid) incidents' of
                         None \<Rightarrow> (incidents', Inl ''TypeError'')
                       | Some found \<Rightarrow> (incidents', Inr found)))
               else (incidents', Inl ''Incident not found'')))"

section \<open>Drift detector (monitoring/drift\_detector.py)\<close>

text \<open>
  The statistics are computed by library calls on arrays and are parameters here:
  \<open>ks_2samp\<close> is the outcome of the two-sample test (\<open>Inl\<close> when it raises, else
  the statistic and the p-value), \<open>np_psi\<close> the outcome of the index computation
  (\<open>Inl\<close> when it raises, \<open>Inr None\<close> when there are fewer than two break points,
  else the sum).
\<close>

definition calculate_psi :: "string + real option \<Rightarrow> real" where
  "calculate_psi np_psi =
     (case np_psi of
        Inl e \<Rightarrow> 0
      | Inr None \<Rightarrow> 0
      | Inr (Some psi) \<Rightarrow> \<bar>psi\<bar>)"

definition ks_test :: "string + real \<times> real \<Rightarrow> real \<Rightarrow> bool \<times> real \<times> real" where
  "ks_test ks_2samp alpha =
     (case ks_2samp of
        Inl e \<Rightarrow> (False, 0, 1)
      | Inr (statistic, p) \<Rightarrow> (p < alpha, statistic, p))"

text \<open>
  The record that \<^verbatim>\<open>check_drift\<close> returns and inserts into \<^verbatim>\<open>drift_logs\<close>
  (without the distribution comparison and the timestamp).
\<close>

definition check_drift ::
  "string \<Rightarrow> string + real \<times> real \<Rightarrow> string + real option \<Rightarrow> real \<Rightarrow> drift_log" where
  "check_drift feature_name ks_2samp np_psi alpha =
     (case ks_test ks_2samp alpha of
        (detected, ks_stat, p) \<Rightarrow>
          (let psi = calculate_psi np_psi;
               sev = (if psi > 0.2 \<or> (detected \<and> ks_stat > 0.3) then ''high''
                      else if psi > 0.1 \<or> detected then ''moderate''
                      else ''low'')
           in \<lparr> feature = feature_name,
                drift_detected = (detected \<or> psi > 0.2),
                severity = sev,
                ks_statistic = ks_stat,
                p_value = p,
                psi_score = Some (Num psi),
                threshold = alpha,
                test_type = ''ks_test_and_psi'' \<rparr>))"

section \<open>LLM response quality (llm/openrouter\_service.py)\<close>

text \<open>
  Strings are lists of characters, a character being a code point from 0 to 255. The
  character classes are those of Python on these code points (\<^verbatim>\<open>str.isupper\<close>,
  the white space that \<^verbatim>\<open>str.strip\<close> removes, \<^verbatim>\<open>str.lower\<close>, and the word
  characters of \<^verbatim>\<open>\w\<close>); code points above 255 are not represented.
\<close>

datatype py_error = IndexError

definition isupper :: "char \<Rightarrow> bool" where
  "isupper c =
     (let n = (of_char c :: nat)
      in (65 \<le> n \<and> n \<le> 90) \<or> (192 \<le> n \<and> n \<le> 214) \<or> (216 \<le> n \<and> n \<le> 222))"

definition isspace :: "char \<Rightarrow> bool" where
  "isspace c = ((of_char c :: nat) \<in> {9, 10, 11, 12, 13, 28, 29, 30, 31, 32, 133, 160})"

definition isword :: "char \<Rightarrow> bool" where
  "isword c =
     (let n = (of_char c :: nat)
      in (48 \<le> n \<and> n \<le> 57) \<or> (65 \<le> n \<and> n \<le> 90) \<or> n = 95 \<or> (97 \<le> n \<and> n \<le> 122)
         \<or> n \<in> {170, 178, 179, 181, 185, 186, 188, 189, 190}
         \<or> (192 \<le> n \<and> n \<le> 214) \<or> (216 \<le> n \<and> n \<le> 246) \<or> (248 \<le> n \<and> n \<le> 255))"

definition lower :: "string \<Rightarrow> string" where
  "lower s = map (\<lambda>c. if isupper c then char_of ((of_char c :: nat) + 32) else c) s"

definition strip :: "string \<Rightarrow> string" where
  "strip s = rev (dropWhile isspace (rev (dropWhile isspace s)))"

text \<open>\<^verbatim>\<open>sub in s\<close> on strings.\<close>

fun contains :: "string \<Rightarrow> string \<Rightarrow> bool" where
  "contains sub [] = (sub = [])"
| "contains sub (c # cs) = (take (length sub) (c # cs) = sub \<or> contains sub cs)"

text \<open>\<^verbatim>\<open>re.findall(r'\w+', s)\<close>: the maximal runs of word characters, in order.\<close>

fun findall_words :: "string \<Rightarrow> string \<Rightarrow> string list" where
  "findall_words cur [] = (if cur = [] then [] else [cur])"
| "findall_words cur (c # cs) =
     (if isword c then findall_words (cur @ [c]) cs
      else (if cur = [] then [] else [cur]) @ findall_words [] cs)"

definition common_words :: "string list" where
  "common_words =
     [''the'', ''a'', ''an'', ''and'', ''or'', ''but'', ''in'', ''on'', ''at'', ''to'', ''for'',
      ''of'', ''with'', ''is'', ''are'', ''was'', ''were'']"

definition professional_indicators :: "string list" where
  "professional_indicators =
     [''please'', ''thank you'', ''contact'', ''information'', ''service'', ''account'']"

text \<open>
  \<^verbatim>\<open>calculate_quality_score\<close>. The two sets of words are lists without repetition.
  Indexing the empty string raises \<^verbatim>\<open>IndexError\<close>.
\<close>

definition calculate_quality_score :: "string \<Rightarrow> string \<Rightarrow> py_error + real" where
  "calculate_quality_score response prompt =
     (let score = 1;
          response_length = length response;
          score = (if response_length < 50 then score - 0.3
                   else if response_length > 1500 then score - 0.15
                   else score);
          sentences = count_list response CHR ''.'' + count_list response CHR ''!''
                        + count_list response CHR ''?'';
          score = (if sentences < 2 then score - 0.2 else score)
      in case response of
           [] \<Rightarrow> Inl IndexError
         | first # _ \<Rightarrow>
             (let score = (if \<not> isupper first then score - 0.1 else score)
              in if strip response = [] then Inl IndexError
                 else
                   (let score = (if last (strip response) \<notin> set ''.!?'' then score - 0.1
                                 else score);
                        prompt_words = remdups (findall_words [] (lower prompt));
                        response_words = remdups (findall_words [] (lower response));
                        prompt_words = filter (\<lambda>w. w \<notin> set common_words) prompt_words;
                        response_words = filter (\<lambda>w. w \<notin> set common_words) response_words;
                        score =
                          (if length prompt_words > 0 then
                             (let overlap =
                                    real (length (filter (\<lambda>w. w \<in> set response_words)
                                            prompt_words))
                                      / real (length prompt_words)
                              in if overlap < 0.2 then score - 0.3
                                 else if overlap < 0.4 then score - 0.1
                                 else score)
                           else score);
                        professional_count =
                          length (filter (\<lambda>word. contains word (lower response))
                                    professional_indicators);
                        score = (if professional_count = 0 then score - 0.1 else score)
                    in Inr (max 0 (min 1 score)))))"

section \<open>Properties\<close>

subsection \<open>Rounding and integrality of the score\<close>

lemma py_round_of_int: "py_round (of_int k) n = of_int k"
proof -
  have "(of_int k :: real) * 10 ^ n = of_int (k * 10 ^ n)" by simp
  then have "round_half_even (of_int k * 10 ^ n) = k * 10 ^ n"
    unfolding round_half_even_def Let_def by (simp only: floor_of_int) simp
  then show ?thesis by (simp add: py_round_def)
qed

lemma py_round_Ints: "x \<in> \<int> \<Longrightarrow> py_round x n = x"
  by (auto elim!: Ints_cases simp: py_round_of_int)

lemma calculate_drift_penalty_Ints: "calculate_drift_penalty sev \<in> \<int>"
  by (simp add: calculate_drift_penalty_def)

lemma calculate_accuracy_penalty_Ints: "calculate_accuracy_penalty d \<in> \<int>"
  by (simp add: calculate_accuracy_penalty_def)

lemma get_bias_score_const: "get_bias_score env = 0.15"
  by (simp add: get_bias_score_def get_bias_score_try_def)

lemma clamp_Ints: "x \<in> \<int> \<Longrightarrow> max 0 (min 100 x) \<in> (\<int> :: real set)"
  by (simp add: max_def min_def)

lemma penalised_trust_score_Ints:
  "penalised_trust_score sev d (get_bias_score env) n \<in> \<int>"
  unfolding penalised_trust_score_def Let_def
  by (rule clamp_Ints)
     (simp add: calculate_drift_penalty_Ints calculate_accuracy_penalty_Ints
        load_thresholds_def get_bias_score_const)

lemma py_round_penalised:
  "py_round (penalised_trust_score sev d (get_bias_score env) n) k =
     penalised_trust_score sev d (get_bias_score env) n"
  by (rule py_round_Ints [OF penalised_trust_score_Ints])

lemma penalised_trust_score_bounds:
  "0 \<le> penalised_trust_score sev d b n \<and> penalised_trust_score sev d b n \<le> 100"
  by (simp add: penalised_trust_score_def Let_def)

subsection \<open>The two paths of calculate\_trust\_score\<close>


lemma trust_score_scored:
  assumes "trust_scores_insert_one env = None"
  shows "trust_score (calculate_trust_score env) =
    penalised_trust_score (get_drift_severity env) (get_accuracy_drop env)
      (get_bias_score env) (get_recent_overrides env)"
  using assms
  by (simp add: calculate_trust_score_def calculate_trust_score_try_def Let_def
      py_round_penalised)

lemma governance_action_scored:
  assumes "trust_scores_insert_one env = None"
  shows "governance_action (calculate_trust_score env) =
    determine_governance_action (trust_score (calculate_trust_score env))
      (check_alerts (get_drift_severity env) (get_accuracy_drop env)
         (trust_score (calculate_trust_score env)))"
  using assms
  by (simp add: calculate_trust_score_def calculate_trust_score_try_def Let_def
      py_round_penalised)

lemma calculate_trust_score_degraded:
  assumes "trust_scores_insert_one env = Some e"
  shows "calculate_trust_score env =
    \<lparr> trust_score = 0, autonomy_level = ''kill_switch'', risk_factors = None,
      contributing_metrics = None, alerts_triggered = None,
      governance_action = ''kill_switch'', error = Some e \<rparr>"
  using assms
  by (simp add: calculate_trust_score_def calculate_trust_score_try_def Let_def)

lemma bias_penalty_scored:
  assumes "trust_scores_insert_one env = None"
  shows "map_option rf_bias_score (risk_factors (calculate_trust_score env)) = Some 3"
  using assms
  by (simp add: calculate_trust_score_def calculate_trust_score_try_def Let_def
      get_bias_score_const load_thresholds_def py_round_Ints)

lemma governance_action_cases:
  "determine_governance_action ts (check_alerts sev d ts) =
     (if sev = ''high'' \<or> d > 0.10 then ''kill_switch''
      else if ts < 40 then ''require_approval''
      else if ts < 60 then ''human_review''
      else ''none'')"
  by (simp add: determine_governance_action_def check_alerts_def load_thresholds_def Let_def)

subsection \<open>Trust score\<close>

text \<open>
  Claim C1. For every drift severity, accuracy drop, bias score and override count, the
  trust score computed from them is 100 minus the four penalties, set to 0 when the
  difference is negative and to 100 when it exceeds 100, so it lies in \<open>[0,100]\<close>
  whatever the penalties sum to. The score of every result of
  \<^verbatim>\<open>calculate_trust_score\<close> lies in \<open>[0,100]\<close>, and when the result is stored it
  is that clamped difference for the values the getters read.
\<close>

theorem trust_score_clamped_formula:
  "0 \<le> penalised_trust_score sev d b n \<and> penalised_trust_score sev d b n \<le> 100
   \<and> penalised_trust_score sev d b n =
       (let raw = 100 - calculate_drift_penalty sev - calculate_accuracy_penalty d
                    - b * 20 - real n * 10
        in if raw < 0 then 0 else if raw > 100 then 100 else raw)
   \<and> 0 \<le> trust_score (calculate_trust_score env)
   \<and> trust_score (calculate_trust_score env) \<le> 100
   \<and> (trust_scores_insert_one env = None \<longrightarrow>
        trust_score (calculate_trust_score env) =
          penalised_trust_score (get_drift_severity env) (get_accuracy_drop env)
            (get_bias_score env) (get_recent_overrides env))"
proof -
  have formula: "penalised_trust_score sev d b n =
       (let raw = 100 - calculate_drift_penalty sev - calculate_accuracy_penalty d
                    - b * 20 - real n * 10
        in if raw < 0 then 0 else if raw > 100 then 100 else raw)"
    by (simp add: penalised_trust_score_def load_thresholds_def Let_def max_def min_def)
  have result: "0 \<le> trust_score (calculate_trust_score env)
      \<and> trust_score (calculate_trust_score env) \<le> 100"
  proof (cases "trust_scores_insert_one env")
    case None
    then show ?thesis
      by (simp add: trust_score_scored penalised_trust_score_bounds)
  next
    case (Some e)
    then show ?thesis
      by (simp add: calculate_trust_score_degraded)
  qed
  show ?thesis
    using formula result penalised_trust_score_bounds [of sev d b n] trust_score_scored [of env]
    by blast
qed

theorem trust_score_clamped_formula_witness:
  "trust_scores_insert_one
      \<lparr> drift_logs_find_one = Inr None, performance_logs_find_one = Inr None,
        governance_logs_count_documents = Inr 20, trust_scores_insert_one = None \<rparr> = None
   \<and> trust_score (calculate_trust_score
      \<lparr> drift_logs_find_one = Inr None, performance_logs_find_one = Inr None,
        governance_logs_count_documents = Inr 20, trust_scores_insert_one = None \<rparr>) = 0
   \<and> penalised_trust_score ''low'' 0 0.15 20 = 0
   \<and> penalised_trust_score ''high'' 0.2 0.15 0 = 42"
  using trust_score_clamped_formula [of "''low''" 0 "0.15" 20
      "\<lparr> drift_logs_find_one = Inr None, performance_logs_find_one = Inr None,
        governance_logs_count_documents = Inr 20, trust_scores_insert_one = None \<rparr>"]
    trust_score_clamped_formula [of "''high''" "0.2" "0.15" 0
      "\<lparr> drift_logs_find_one = Inr None, performance_logs_find_one = Inr None,
        governance_logs_count_documents = Inr 20, trust_scores_insert_one = None \<rparr>"]
  by (simp add: get_drift_severity_def get_drift_severity_try_def get_accuracy_drop_def
      get_accuracy_drop_try_def get_bias_score_const get_recent_overrides_def
      get_recent_overrides_try_def calculate_drift_penalty_def calculate_accuracy_penalty_def
      load_thresholds_def Let_def)

subsection \<open>Bias placeholder\<close>

text \<open>
  Claim C7. \<^verbatim>\<open>_get_bias_score\<close> returns 0.15 whatever the database holds, so the
  bias penalty is \<open>0.15 * 20 = 3\<close>: in every calculation whose result is stored, the
  bias entry of the risk factors is 3 and the score is the clamped difference with 3 as
  the bias penalty.
\<close>

theorem bias_score_placeholder:
  "get_bias_score env = 0.15
   \<and> get_bias_score env * w_bias_penalty load_thresholds = 3
   \<and> (trust_scores_insert_one env = None \<longrightarrow>
        map_option rf_bias_score (risk_factors (calculate_trust_score env)) = Some 3
        \<and> trust_score (calculate_trust_score env) =
            max 0 (min 100
              (100 - calculate_drift_penalty (get_drift_severity env)
                 - calculate_accuracy_penalty (get_accuracy_drop env)
                 - 3 - real (get_recent_overrides env) * 10)))"
proof -
  have "trust_score (calculate_trust_score env) =
      max 0 (min 100
        (100 - calculate_drift_penalty (get_drift_severity env)
           - calculate_accuracy_penalty (get_accuracy_drop env)
           - 3 - real (get_recent_overrides env) * 10))"
    if "trust_scores_insert_one env = None"
    using trust_score_scored [OF that]
    by (simp add: penalised_trust_score_def get_bias_score_const load_thresholds_def Let_def)
  then show ?thesis
    by (simp add: get_bias_score_const load_thresholds_def bias_penalty_scored)
qed

theorem bias_score_placeholder_witness:
  "trust_scores_insert_one
      \<lparr> drift_logs_find_one = Inr None, performance_logs_find_one = Inr None,
        governance_logs_count_documents = Inr 0, trust_scores_insert_one = None \<rparr> = None
   \<and> map_option rf_bias_score (risk_factors (calculate_trust_score
      \<lparr> drift_logs_find_one = Inr None, performance_logs_find_one = Inr None,
        governance_logs_count_documents = Inr 0, trust_scores_insert_one = None \<rparr>)) = Some 3
   \<and> trust_score (calculate_trust_score
      \<lparr> drift_logs_find_one = Inr None, performance_logs_find_one = Inr None,
        governance_logs_count_documents = Inr 0, trust_scores_insert_one = None \<rparr>) = 92"
  using bias_score_placeholder [of
      "\<lparr> drift_logs_find_one = Inr None, performance_logs_find_one = Inr None,
        governance_logs_count_documents = Inr 0, trust_scores_insert_one = None \<rparr>"]
  by (simp add: get_drift_severity_def get_drift_severity_try_def get_accuracy_drop_def
      get_accuracy_drop_try_def get_recent_overrides_def get_recent_overrides_try_def
      calculate_drift_penalty_def calculate_accuracy_penalty_def load_thresholds_def)

subsection \<open>Governance action\<close>

text \<open>
  Claim C4. The critical alerts are triggered exactly by a drift severity \<open>high\<close> and
  by an accuracy drop above 0.10. The governance action is \<open>kill_switch\<close> when one of
  them is triggered, otherwise \<open>require_approval\<close> for a trust score below 40,
  \<open>human_review\<close> for a trust score below 60 and \<open>none\<close> from 60 on; so it differs
  from \<open>none\<close> exactly when one of these thresholds is crossed. This is the action of
  every result of \<^verbatim>\<open>calculate_trust_score\<close> that is stored.
\<close>

theorem governance_action_thresholds:
  "(''critical_drift'' \<in> set (check_alerts sev d ts) \<longleftrightarrow> sev = ''high'')
   \<and> (''critical_accuracy_drop'' \<in> set (check_alerts sev d ts) \<longleftrightarrow> d > 0.10)
   \<and> determine_governance_action ts (check_alerts sev d ts) =
       (if sev = ''high'' \<or> d > 0.10 then ''kill_switch''
        else if ts < 40 then ''require_approval''
        else if ts < 60 then ''human_review''
        else ''none'')
   \<and> (determine_governance_action ts (check_alerts sev d ts) \<noteq> ''none''
        \<longleftrightarrow> sev = ''high'' \<or> d > 0.10 \<or> ts < 60)
   \<and> (trust_scores_insert_one env = None \<longrightarrow>
        governance_action (calculate_trust_score env) =
          (if get_drift_severity env = ''high'' \<or> get_accuracy_drop env > 0.10
             then ''kill_switch''
           else if trust_score (calculate_trust_score env) < 40 then ''require_approval''
           else if trust_score (calculate_trust_score env) < 60 then ''human_review''
           else ''none''))"
proof -
  have alerts: "(''critical_drift'' \<in> set (check_alerts sev d ts) \<longleftrightarrow> sev = ''high'')
      \<and> (''critical_accuracy_drop'' \<in> set (check_alerts sev d ts) \<longleftrightarrow> d > 0.10)"
    by (simp add: check_alerts_def load_thresholds_def Let_def)
  have nonnone: "determine_governance_action ts (check_alerts sev d ts) \<noteq> ''none''
        \<longleftrightarrow> sev = ''high'' \<or> d > 0.10 \<or> ts < 60"
    by (simp add: governance_action_cases)
  have stored: "governance_action (calculate_trust_score env) =
          (if get_drift_severity env = ''high'' \<or> get_accuracy_drop env > 0.10
             then ''kill_switch''
           else if trust_score (calculate_trust_score env) < 40 then ''require_approval''
           else if trust_score (calculate_trust_score env) < 60 then ''human_review''
           else ''none'')"
    if "trust_scores_insert_one env = None"
    by (simp only: governance_action_scored [OF that] governance_action_cases)
  show ?thesis
    using alerts nonnone stored governance_action_cases [of ts sev d] by blast
qed

theorem governance_action_thresholds_witness:
  "trust_scores_insert_one
      \<lparr> drift_logs_find_one = Inr None, performance_logs_find_one = Inr None,
        governance_logs_count_documents = Inr 5, trust_scores_insert_one = None \<rparr> = None
   \<and> governance_action (calculate_trust_score
      \<lparr> drift_logs_find_one = Inr None, performance_logs_find_one = Inr None,
        governance_logs_count_documents = Inr 5, trust_scores_insert_one = None \<rparr>)
       = ''human_review''
   \<and> determine_governance_action 62 (check_alerts ''high'' 0 62) = ''kill_switch''
   \<and> determine_governance_action 30 (check_alerts ''low'' 0 30) = ''require_approval''
   \<and> determine_governance_action 60 (check_alerts ''moderate'' 0.06 60) = ''none''"
  using governance_action_thresholds [of "''high''" 0 62
      "\<lparr> drift_logs_find_one = Inr None, performance_logs_find_one = Inr None,
        governance_logs_count_documents = Inr 5, trust_scores_insert_one = None \<rparr>"]
    governance_action_thresholds [of "''low''" 0 30]
    governance_action_thresholds [of "''moderate''" "0.06" 60]
    trust_score_scored [of
      "\<lparr> drift_logs_find_one = Inr None, performance_logs_find_one = Inr None,
        governance_logs_count_documents = Inr 5, trust_scores_insert_one = None \<rparr>"]
  by (simp add: get_drift_severity_def get_drift_severity_try_def get_accuracy_drop_def
      get_accuracy_drop_try_def get_bias_score_const get_recent_overrides_def
      get_recent_overrides_try_def calculate_drift_penalty_def calculate_accuracy_penalty_def
      penalised_trust_score_def load_thresholds_def Let_def)

subsection \<open>Risk category\<close>

text \<open>
  Claim C3. For every approval probability \<open>p\<close> (in particular every \<open>p\<close> in \<open>[0,1]\<close>),
  \<^verbatim>\<open>_map_risk_category\<close> returns "Low" when \<open>p > 0.7\<close>, "Medium" when
  \<open>0.3 \<le> p \<le> 0.7\<close> and "High" when \<open>p < 0.3\<close>.
\<close>

theorem map_risk_category_thresholds:
  "(p > 0.7 \<longrightarrow> map_risk_category p = ''Low'')
   \<and> (0.3 \<le> p \<and> p \<le> 0.7 \<longrightarrow> map_risk_category p = ''Medium'')
   \<and> (p < 0.3 \<longrightarrow> map_risk_category p = ''High'')"
  by (simp add: map_risk_category_def)

theorem map_risk_category_thresholds_witness:
  "map_risk_category 0.75 = ''Low''
   \<and> map_risk_category 0.5 = ''Medium''
   \<and> map_risk_category 0.2 = ''High''"
  using map_risk_category_thresholds [of "0.75"]
    map_risk_category_thresholds [of "0.5"]
    map_risk_category_thresholds [of "0.2"]
  by simp

subsection \<open>Autonomy level\<close>

lemma determine_autonomy_level_cases:
  "determine_autonomy_level s =
     (if 80 \<le> s then ''fully_autonomous''
      else if 60 \<le> s then ''human-on-loop''
      else if 40 \<le> s then ''approval_required''
      else ''kill_switch'')"
  by (simp add: determine_autonomy_level_def load_thresholds_def)

text \<open>
  Claim C2. The thresholds 80/60/40 are as claimed, and the scores 80, 40 and 0 get the
  labels \<open>fully_autonomous\<close>, \<open>approval_required\<close> and \<open>kill_switch\<close>, which are
  levels of \<^verbatim>\<open>get_autonomy_levels\<close>. At score 60 the function returns the hyphenated
  string \<open>human-on-loop\<close>, which is not the level \<open>human_on_loop\<close> of the claim and is
  not a level of \<^verbatim>\<open>get_autonomy_levels\<close>, whose range 60 to 79 is keyed
  \<open>human_on_loop\<close>.
\<close>

theorem determine_autonomy_level_at_60:
  "determine_autonomy_level 60 = ''human-on-loop''
   \<and> determine_autonomy_level 60 \<noteq> ''human_on_loop''
   \<and> determine_autonomy_level 60 \<notin> set (map fst get_autonomy_levels)
   \<and> map_of get_autonomy_levels ''human_on_loop'' = Some (60, 79)
   \<and> determine_autonomy_level 80 = ''fully_autonomous''
   \<and> determine_autonomy_level 40 = ''approval_required''
   \<and> determine_autonomy_level 0 = ''kill_switch''
   \<and> {determine_autonomy_level 80, determine_autonomy_level 40, determine_autonomy_level 0}
        \<subseteq> set (map fst get_autonomy_levels)"
  by (simp add: determine_autonomy_level_cases get_autonomy_levels_def)

subsection \<open>Alerts\<close>

text \<open>
  Claim C10. \<^verbatim>\<open>_check_alerts\<close> attaches \<open>low_trust_score\<close> to trust scores strictly
  below 40, \<open>very_low_trust_score\<close> to trust scores of at least 40 and strictly below
  60, and neither label to scores of 60 or above, whatever the drift severity and the
  accuracy drop.
\<close>

theorem check_alerts_trust_labels:
  "(ts < 40 \<longrightarrow>
      ''low_trust_score'' \<in> set (check_alerts sev d ts)
      \<and> ''very_low_trust_score'' \<notin> set (check_alerts sev d ts))
   \<and> (40 \<le> ts \<and> ts < 60 \<longrightarrow>
      ''very_low_trust_score'' \<in> set (check_alerts sev d ts)
      \<and> ''low_trust_score'' \<notin> set (check_alerts sev d ts))
   \<and> (60 \<le> ts \<longrightarrow>
      ''very_low_trust_score'' \<notin> set (check_alerts sev d ts)
      \<and> ''low_trust_score'' \<notin> set (check_alerts sev d ts))"
  by (simp add: check_alerts_def load_thresholds_def Let_def)

theorem check_alerts_trust_labels_witness:
  "check_alerts ''low'' 0 39 = [''low_trust_score'']
   \<and> ''low_trust_score'' \<in> set (check_alerts ''low'' 0 39)
   \<and> check_alerts ''low'' 0 40 = [''very_low_trust_score'']
   \<and> ''very_low_trust_score'' \<in> set (check_alerts ''low'' 0 40)
   \<and> check_alerts ''low'' 0 60 = []"
  using check_alerts_trust_labels [of 39 "''low''" 0]
    check_alerts_trust_labels [of 40 "''low''" 0]
    check_alerts_trust_labels [of 60 "''low''" 0]
  by (simp add: check_alerts_def load_thresholds_def Let_def)

subsection \<open>Exceptions\<close>






subsection \<open>Drift severity in the two modules\<close>

lemma get_drift_severity_of_psi:
  assumes "drift_logs_find_one env = Inr (Some r)" and "psi_score r = Some (Num psi)"
  shows "get_drift_severity env =
    (if psi > 0.3 then ''high'' else if psi > 0.2 then ''moderate'' else ''low'')"
  using assms
  by (simp add: get_drift_severity_def get_drift_severity_try_def load_thresholds_def)

lemma check_drift_fields:
  "psi_score (check_drift f ks np alpha) = Some (Num (calculate_psi np))
   \<and> severity (check_drift f ks np alpha) =
       (if calculate_psi np > 0.2 \<or> (fst (ks_test ks alpha) \<and> fst (snd (ks_test ks alpha)) > 0.3)
          then ''high''
        else if calculate_psi np > 0.1 \<or> fst (ks_test ks alpha) then ''moderate''
        else ''low'')"
  by (cases "ks_test ks alpha") (simp add: check_drift_def Let_def)

text \<open>
  Claim C5, as stated, fails. A record with PSI 0.25 and no drift in the two-sample
  test is stored by \<^verbatim>\<open>check_drift\<close> with severity \<open>high\<close>; when it is the latest
  drift log, \<^verbatim>\<open>_get_drift_severity\<close> derives \<open>moderate\<close> from its PSI.
\<close>

theorem drift_severity_cutoffs_differ:
  "severity (check_drift ''income'' (Inr (0.1, 0.5)) (Inr (Some 0.25)) 0.05) = ''high''
   \<and> get_drift_severity
        \<lparr> drift_logs_find_one =
            Inr (Some (check_drift ''income'' (Inr (0.1, 0.5)) (Inr (Some 0.25)) 0.05)),
          performance_logs_find_one = Inr None,
          governance_logs_count_documents = Inr 0,
          trust_scores_insert_one = None \<rparr> = ''moderate''"
proof -
  let ?r = "check_drift ''income'' (Inr (0.1, 0.5)) (Inr (Some 0.25)) 0.05"
  have psi: "calculate_psi (Inr (Some 0.25)) = 0.25"
    by (simp add: calculate_psi_def)
  have "severity ?r = ''high''"
    by (simp add: check_drift_fields calculate_psi_def ks_test_def)
  moreover have "get_drift_severity
        \<lparr> drift_logs_find_one = Inr (Some ?r),
          performance_logs_find_one = Inr None,
          governance_logs_count_documents = Inr 0,
          trust_scores_insert_one = None \<rparr> = ''moderate''"
    by (subst get_drift_severity_of_psi [where r = ?r and psi = "0.25"])
       (simp_all add: check_drift_fields calculate_psi_def)
  ultimately show ?thesis by simp
qed

text \<open>
  Claim C5, amended. The two modules use different cutoffs. \<^verbatim>\<open>check_drift\<close> stores
  the PSI it computed and the severity \<open>high\<close> when the PSI exceeds 0.2 or the
  two-sample test detects drift with a statistic above 0.3, \<open>moderate\<close> when the PSI
  exceeds 0.1 or the test detects drift, else \<open>low\<close>; the test detects drift when
  its p-value is below \<open>alpha\<close>, and never when it raises. For such a record as the
  latest drift log, \<^verbatim>\<open>_get_drift_severity\<close> derives \<open>high\<close> when the PSI exceeds
  0.3, \<open>moderate\<close> when it exceeds 0.2, else \<open>low\<close>. The two agree exactly when the
  PSI exceeds 0.3, or the PSI is at most 0.1 and the test detects no drift; the derived
  severity is never the more severe one.
\<close>

theorem drift_severity_agreement:
  "severity (check_drift f ks np alpha) =
     (if calculate_psi np > 0.2 \<or> (fst (ks_test ks alpha) \<and> fst (snd (ks_test ks alpha)) > 0.3)
        then ''high''
      else if calculate_psi np > 0.1 \<or> fst (ks_test ks alpha) then ''moderate''
      else ''low'')
   \<and> psi_score (check_drift f ks np alpha) = Some (Num (calculate_psi np))
   \<and> ks_test (Inr (statistic, p)) alpha = (p < alpha, statistic, p)
   \<and> ks_test (Inl e) alpha = (False, 0, 1)
   \<and> (drift_logs_find_one env = Inr (Some (check_drift f ks np alpha)) \<longrightarrow>
     get_drift_severity env =
       (if calculate_psi np > 0.3 then ''high''
        else if calculate_psi np > 0.2 then ''moderate'' else ''low'')
     \<and> (get_drift_severity env = severity (check_drift f ks np alpha)
          \<longleftrightarrow> calculate_psi np > 0.3
               \<or> (calculate_psi np \<le> 0.1 \<and> \<not> fst (ks_test ks alpha)))
     \<and> (get_drift_severity env = ''high''
          \<longrightarrow> severity (check_drift f ks np alpha) = ''high'')
     \<and> (get_drift_severity env = ''moderate''
          \<longrightarrow> severity (check_drift f ks np alpha) = ''high'')
     \<and> (severity (check_drift f ks np alpha) \<noteq> ''high''
          \<longrightarrow> get_drift_severity env = ''low''))"
  (is "?stored \<and> ?psi \<and> ?ks \<and> ?ks_raises \<and> (?latest \<longrightarrow> ?derived)")
proof -
  have stored: ?stored and psi: ?psi
    using check_drift_fields [of f ks np alpha] by simp_all
  have ks: ?ks and ks_raises: ?ks_raises
    by (simp_all add: ks_test_def)
  have "?derived" if latest: ?latest
  proof -
    have derived: "get_drift_severity env =
         (if calculate_psi np > 0.3 then ''high''
          else if calculate_psi np > 0.2 then ''moderate'' else ''low'')"
      using get_drift_severity_of_psi [OF latest psi] .
    show ?thesis
      unfolding derived stored by (auto split: if_splits)
  qed
  with stored psi ks ks_raises show ?thesis
    by blast
qed

theorem drift_severity_agreement_witness:
  "get_drift_severity
        \<lparr> drift_logs_find_one =
            Inr (Some (check_drift ''income'' (Inr (0.45, 0.001)) (Inr (Some 0.35)) 0.05)),
          performance_logs_find_one = Inr None,
          governance_logs_count_documents = Inr 0,
          trust_scores_insert_one = None \<rparr> = ''high''
   \<and> severity (check_drift ''income'' (Inr (0.45, 0.001)) (Inr (Some 0.35)) 0.05) = ''high''
   \<and> get_drift_severity
        \<lparr> drift_logs_find_one =
            Inr (Some (check_drift ''age'' (Inr (0.2, 0.01)) (Inr (Some 0.05)) 0.05)),
          performance_logs_find_one = Inr None,
          governance_logs_count_documents = Inr 0,
          trust_scores_insert_one = None \<rparr> = ''low''
   \<and> severity (check_drift ''age'' (Inr (0.2, 0.01)) (Inr (Some 0.05)) 0.05) = ''moderate''
   \<and> get_drift_severity
        \<lparr> drift_logs_find_one =
            Inr (Some (check_drift ''loan_amount'' (Inr (0.1, 0.5)) (Inr (Some 0.15)) 0.05)),
          performance_logs_find_one = Inr None,
          governance_logs_count_documents = Inr 0,
          trust_scores_insert_one = None \<rparr> = ''low''
   \<and> severity (check_drift ''loan_amount'' (Inr (0.1, 0.5)) (Inr (Some 0.15)) 0.05)
       = ''moderate''
   \<and> severity (check_drift ''loan_amount'' (Inl ''ValueError'') (Inr (Some 0.05)) 0.05)
       = ''low''"
  (is "get_drift_severity ?e1 = _ \<and> severity ?r1 = _
       \<and> get_drift_severity ?e2 = _ \<and> severity ?r2 = _
       \<and> get_drift_severity ?e3 = _ \<and> severity ?r3 = _ \<and> severity ?r4 = _")
proof -
  have l1: "drift_logs_find_one ?e1 = Inr (Some ?r1)"
    and l2: "drift_logs_find_one ?e2 = Inr (Some ?r2)"
    and l3: "drift_logs_find_one ?e3 = Inr (Some ?r3)"
    by simp_all
  note t1 = drift_severity_agreement
    [of "''income''" "Inr (0.45, 0.001)" "Inr (Some 0.35)" "0.05" "0.45" "0.001" _ ?e1]
  note t2 = drift_severity_agreement
    [of "''age''" "Inr (0.2, 0.01)" "Inr (Some 0.05)" "0.05" "0.2" "0.01" _ ?e2]
  note t3 = drift_severity_agreement
    [of "''loan_amount''" "Inr (0.1, 0.5)" "Inr (Some 0.15)" "0.05" "0.1" "0.5" _ ?e3]
  note t4 = drift_severity_agreement
    [of "''loan_amount''" "Inl ''ValueError''" "Inr (Some 0.05)" "0.05" 0 0 "''ValueError''" ?e3]
  have g1: "get_drift_severity ?e1 = ''high''"
    using t1 l1 by (simp add: calculate_psi_def)
  have s1: "severity ?r1 = ''high''"
    using t1 by (simp add: calculate_psi_def)
  have g2: "get_drift_severity ?e2 = ''low''"
    using t2 l2 by (simp add: calculate_psi_def)
  have s2: "severity ?r2 = ''moderate''"
    using t2 by (simp add: calculate_psi_def)
  have g3: "get_drift_severity ?e3 = ''low''"
    using t3 l3 by (simp add: calculate_psi_def)
  have s3: "severity ?r3 = ''moderate''"
    using t3 by (simp add: calculate_psi_def)
  have s4: "severity ?r4 = ''low''"
    using t4 by (simp add: calculate_psi_def)
  show ?thesis
    using g1 s1 g2 s2 g3 s3 s4 by blast
qed

subsection \<open>Resolving an incident\<close>

lemma update_one_no_match:
  "\<forall>d\<in>set ds. \<not> flt d \<Longrightarrow> update_one flt upd ds = (ds, 0)"
  by (induction ds) auto

lemma update_one_first_match:
  "\<exists>d\<in>set ds. flt d \<Longrightarrow>
     \<exists>i<length ds. flt (ds ! i) \<and> (\<forall>j<i. \<not> flt (ds ! j))
        \<and> fst (update_one flt upd ds) = ds[i := upd (ds ! i)]"
proof (induction ds)
  case Nil
  then show ?case by simp
next
  case (Cons d ds)
  show ?case
  proof (cases "flt d")
    case True
    then have "flt ((d # ds) ! 0) \<and> (\<forall>j<0. \<not> flt ((d # ds) ! j))
        \<and> fst (update_one flt upd (d # ds)) = (d # ds)[0 := upd ((d # ds) ! 0)]"
      by simp
    then show ?thesis by blast
  next
    case False
    with Cons.prems have "\<exists>d\<in>set ds. flt d" by auto
    from Cons.IH [OF this] obtain i where i: "i < length ds" "flt (ds ! i)"
      "\<forall>j<i. \<not> flt (ds ! j)" "fst (update_one flt upd ds) = ds[i := upd (ds ! i)]"
      by blast
    have "\<forall>j<Suc i. \<not> flt ((d # ds) ! j)"
      using False i(3) by (auto simp: less_Suc_eq_0_disj)
    moreover have "fst (update_one flt upd (d # ds)) = (d # ds)[Suc i := upd ((d # ds) ! Suc i)]"
      using False i(4) by (cases "update_one flt upd ds") simp
    ultimately have "Suc i < length (d # ds) \<and> flt ((d # ds) ! Suc i)
        \<and> (\<forall>j<Suc i. \<not> flt ((d # ds) ! j))
        \<and> fst (update_one flt upd (d # ds)) = (d # ds)[Suc i := upd ((d # ds) ! Suc i)]"
      using i(1,2) by simp
    then show ?thesis by blast
  qed
qed

lemma fst_resolve_incident:
  "fst (resolve_incident None ff incidents iid msg now) =
     fst (update_one (\<lambda>d. incident_id d = iid)
            (\<lambda>d. d\<lparr> status := ''resolved'', resolved_at := Some now,
                     resolution_notes := Some msg \<rparr>) incidents)"
  by (simp add: resolve_incident_def split: prod.splits option.splits)

lemma resolve_incident_no_match:
  assumes "\<forall>d\<in>set incidents. incident_id d \<noteq> iid"
  shows "fst (resolve_incident uf ff incidents iid msg now) = incidents
    \<and> isl (snd (resolve_incident uf ff incidents iid msg now))"
  using update_one_no_match [of incidents "\<lambda>d. incident_id d = iid"] assms
  by (simp add: resolve_incident_def split: option.splits)

text \<open>
  Claim C8. When the update reaches the store and some incident has the given id, one
  incident is changed: the first with that id. Its status becomes \<open>resolved\<close>, its
  resolution time the time of the call and its resolution notes the supplied notes;
  its other fields and all other incidents, and their number, are as before. When no
  incident has the given id the store is unchanged and the result is an error.
\<close>

theorem resolve_incident_frame:
  "((\<exists>d\<in>set incidents. incident_id d = iid) \<longrightarrow>
      (\<exists>i<length incidents.
         incident_id (incidents ! i) = iid
         \<and> (\<forall>j<i. incident_id (incidents ! j) \<noteq> iid)
         \<and> length (fst (resolve_incident None ff incidents iid msg now)) = length incidents
         \<and> (\<forall>j<length incidents. j \<noteq> i \<longrightarrow>
               fst (resolve_incident None ff incidents iid msg now) ! j = incidents ! j)
         \<and> status (fst (resolve_incident None ff incidents iid msg now) ! i) = ''resolved''
         \<and> resolved_at (fst (resolve_incident None ff incidents iid msg now) ! i) = Some now
         \<and> resolution_notes (fst (resolve_incident None ff incidents iid msg now) ! i)
             = Some msg
         \<and> incident_id (fst (resolve_incident None ff incidents iid msg now) ! i)
             = incident_id (incidents ! i)
         \<and> incident_severity (fst (resolve_incident None ff incidents iid msg now) ! i)
             = incident_severity (incidents ! i)
         \<and> incident_type (fst (resolve_incident None ff incidents iid msg now) ! i)
             = incident_type (incidents ! i)
         \<and> detected_at (fst (resolve_incident None ff incidents iid msg now) ! i)
             = detected_at (incidents ! i)
         \<and> description (fst (resolve_incident None ff incidents iid msg now) ! i)
             = description (incidents ! i)
         \<and> affected_features (fst (resolve_incident None ff incidents iid msg now) ! i)
             = affected_features (incidents ! i)
         \<and> actions_taken (fst (resolve_incident None ff incidents iid msg now) ! i)
             = actions_taken (incidents ! i)
         \<and> trust_score_at_detection (fst (resolve_incident None ff incidents iid msg now) ! i)
             = trust_score_at_detection (incidents ! i)
         \<and> incident_autonomy_level (fst (resolve_incident None ff incidents iid msg now) ! i)
             = incident_autonomy_level (incidents ! i)))
   \<and> ((\<forall>d\<in>set incidents. incident_id d \<noteq> iid) \<longrightarrow>
         fst (resolve_incident uf ff incidents iid msg now) = incidents
         \<and> isl (snd (resolve_incident uf ff incidents iid msg now))
         \<and> resolve_incident None ff incidents iid msg now
             = (incidents, Inl ''Incident not found''))"
  (is "(?hit \<longrightarrow> ?changed) \<and> (?miss \<longrightarrow> ?same)")
proof (rule conjI)
  show "?hit \<longrightarrow> ?changed"
  proof
    assume ?hit
    from update_one_first_match [of incidents "\<lambda>d. incident_id d = iid", OF this]
    obtain i where i: "i < length incidents" "incident_id (incidents ! i) = iid"
      "\<forall>j<i. incident_id (incidents ! j) \<noteq> iid"
      and upd: "fst (resolve_incident None ff incidents iid msg now) =
        incidents[i := (incidents ! i)\<lparr> status := ''resolved'', resolved_at := Some now,
                                         resolution_notes := Some msg \<rparr>]"
      unfolding fst_resolve_incident by blast
    show ?changed
      unfolding upd using i by (intro exI [of _ i]) simp
  qed
next
  show "?miss \<longrightarrow> ?same"
  proof
    assume no: ?miss
    have "resolve_incident None ff incidents iid msg now
        = (incidents, Inl ''Incident not found'')"
      using update_one_no_match [of incidents "\<lambda>d. incident_id d = iid"] no
      by (simp add: resolve_incident_def)
    with resolve_incident_no_match [OF no] show ?same
      by blast
  qed
qed

theorem resolve_incident_frame_witness:
  "status (fst (resolve_incident None None
      [\<lparr> incident_id = ''INC-1'', incident_severity = ''high'', incident_type = ''data_drift'',
          detected_at = 100, resolved_at = None, status = ''open'',
          description = ''Income feature drift PSI > 0.3 (simulated)'',
          affected_features = [''income''], actions_taken = [''reduced_autonomy''],
          resolution_notes = None, trust_score_at_detection = 67,
          incident_autonomy_level = ''human-on-loop'' \<rparr>,
        \<lparr> incident_id = ''INC-2'', incident_severity = ''high'', incident_type = ''data_drift'',
          detected_at = 200, resolved_at = None, status = ''open'',
          description = ''Income feature drift PSI > 0.3 (simulated)'',
          affected_features = [''income''], actions_taken = [''reduced_autonomy''],
          resolution_notes = None, trust_score_at_detection = 67,
          incident_autonomy_level = ''human-on-loop'' \<rparr>]
      ''INC-2'' ''retrained'' 300) ! 1) = ''resolved''
   \<and> detected_at (fst (resolve_incident None None
      [\<lparr> incident_id = ''INC-1'', incident_severity = ''high'', incident_type = ''data_drift'',
          detected_at = 100, resolved_at = None, status = ''open'',
          description = ''Income feature drift PSI > 0.3 (simulated)'',
          affected_features = [''income''], actions_taken = [''reduced_autonomy''],
          resolution_notes = None, trust_score_at_detection = 67,
          incident_autonomy_level = ''human-on-loop'' \<rparr>,
        \<lparr> incident_id = ''INC-2'', incident_severity = ''high'', incident_type = ''data_drift'',
          detected_at = 200, resolved_at = None, status = ''open'',
          description = ''Income feature drift PSI > 0.3 (simulated)'',
          affected_features = [''income''], actions_taken = [''reduced_autonomy''],
          resolution_notes = None, trust_score_at_detection = 67,
          incident_autonomy_level = ''human-on-loop'' \<rparr>]
      ''INC-2'' ''retrained'' 300) ! 1) = 200
   \<and> status (fst (resolve_incident None None
      [\<lparr> incident_id = ''INC-1'', incident_severity = ''high'', incident_type = ''data_drift'',
          detected_at = 100, resolved_at = None, status = ''open'',
          description = ''Income feature drift PSI > 0.3 (simulated)'',
          affected_features = [''income''], actions_taken = [''reduced_autonomy''],
          resolution_notes = None, trust_score_at_detection = 67,
          incident_autonomy_level = ''human-on-loop'' \<rparr>,
        \<lparr> incident_id = ''INC-2'', incident_severity = ''high'', incident_type = ''data_drift'',
          detected_at = 200, resolved_at = None, status = ''open'',
          description = ''Income feature drift PSI > 0.3 (simulated)'',
          affected_features = [''income''], actions_taken = [''reduced_autonomy''],
          resolution_notes = None, trust_score_at_detection = 67,
          incident_autonomy_level = ''human-on-loop'' \<rparr>]
      ''INC-2'' ''retrained'' 300) ! 0) = ''open''
   \<and> isl (snd (resolve_incident None None
      [\<lparr> incident_id = ''INC-1'', incident_severity = ''high'', incident_type = ''data_drift'',
          detected_at = 100, resolved_at = None, status = ''open'',
          description = ''Income feature drift PSI > 0.3 (simulated)'',
          affected_features = [''income''], actions_taken = [''reduced_autonomy''],
          resolution_notes = None, trust_score_at_detection = 67,
          incident_autonomy_level = ''human-on-loop'' \<rparr>,
        \<lparr> incident_id = ''INC-2'', incident_severity = ''high'', incident_type = ''data_drift'',
          detected_at = 200, resolved_at = None, status = ''open'',
          description = ''Income feature drift PSI > 0.3 (simulated)'',
          affected_features = [''income''], actions_taken = [''reduced_autonomy''],
          resolution_notes = None, trust_score_at_detection = 67,
          incident_autonomy_level = ''human-on-loop'' \<rparr>]
      ''INC-3'' ''retrained'' 300))"
  (is "status (fst (resolve_incident None None ?s _ _ _) ! 1) = _ \<and> _ \<and> _ \<and> _")
proof -
  have hit: "\<exists>d\<in>set ?s. incident_id d = ''INC-2''"
    and miss: "\<forall>d\<in>set ?s. incident_id d \<noteq> ''INC-3''"
    by simp_all
  from resolve_incident_frame
    [of ?s "''INC-2''" None "''retrained''" 300 None, THEN conjunct1, THEN mp, OF hit]
  obtain i where i: "i < length ?s" "incident_id (?s ! i) = ''INC-2''"
    and others: "\<forall>j<length ?s. j \<noteq> i \<longrightarrow>
       fst (resolve_incident None None ?s ''INC-2'' ''retrained'' 300) ! j = ?s ! j"
    and st: "status (fst (resolve_incident None None ?s ''INC-2'' ''retrained'' 300) ! i)
       = ''resolved''"
    and dt: "detected_at (fst (resolve_incident None None ?s ''INC-2'' ''retrained'' 300) ! i)
       = detected_at (?s ! i)"
    by blast
  have "i = 1"
    using i by (cases i) simp_all
  with others st dt
  have a: "status (fst (resolve_incident None None ?s ''INC-2'' ''retrained'' 300) ! 1)
       = ''resolved''"
    and b: "detected_at (fst (resolve_incident None None ?s ''INC-2'' ''retrained'' 300) ! 1)
       = 200"
    and c: "fst (resolve_incident None None ?s ''INC-2'' ''retrained'' 300) ! 0 = ?s ! 0"
    by simp_all
  have d: "isl (snd (resolve_incident None None ?s ''INC-3'' ''retrained'' 300))"
    using resolve_incident_frame
      [of ?s "''INC-3''" None "''retrained''" 300 None, THEN conjunct2, THEN mp, OF miss]
    by blast
  show ?thesis
    using a b c d by simp
qed

subsection \<open>Quality score\<close>

lemma clamp_unit: "0 \<le> max 0 (min 1 x) \<and> max 0 (min 1 x) \<le> (1::real)"
  by simp

lemma strip_Nil: "strip [] = []"
  by (simp add: strip_def)

lemma calculate_quality_score_nonblank:
  assumes "strip response \<noteq> []"
  shows "\<exists>v. calculate_quality_score response prompt = Inr v \<and> 0 \<le> v \<and> v \<le> 1"
proof -
  from assms have "response \<noteq> []"
    using strip_Nil by blast
  then obtain c cs where response: "response = c # cs"
    by (cases response) auto
  have nonblank: "(strip (c # cs) = []) = False"
    using assms response by simp
  have "\<exists>x. calculate_quality_score (c # cs) prompt = Inr (max 0 (min 1 x))"
    unfolding calculate_quality_score_def Let_def list.case nonblank if_False
    by (rule exI) (rule refl)
  then show ?thesis
    unfolding response using clamp_unit by blast
qed

lemma calculate_quality_score_blank:
  assumes "strip response = []"
  shows "calculate_quality_score response prompt = Inl IndexError"
proof (cases response)
  case Nil
  show ?thesis
    unfolding calculate_quality_score_def Let_def Nil list.case by (rule refl)
next
  case (Cons c cs)
  have blank: "(strip (c # cs) = []) = True"
    using assms Cons by simp
  show ?thesis
    unfolding calculate_quality_score_def Let_def Cons list.case blank if_True by (rule refl)
qed

text \<open>
  Claim C9 fails on the code: for the empty response \<^verbatim>\<open>response[0]\<close> raises
  \<^verbatim>\<open>IndexError\<close>, and for a response of white space only
  \<^verbatim>\<open>response.strip()[-1]\<close> raises it, whatever the prompt. The function returns a
  score, which lies in \<open>[0,1]\<close>, for every response with a character that is not
  white space (\<open>calculate_quality_score_nonblank\<close>).
\<close>

theorem calculate_quality_score_raises:
  "calculate_quality_score [] prompt = Inl IndexError
   \<and> calculate_quality_score ''   '' prompt = Inl IndexError"
proof -
  have "strip [] = []" and "strip ''   '' = []"
    by (simp_all add: strip_def isspace_def)
  then show ?thesis
    by (simp only: calculate_quality_score_blank)
qed

end
